theory Spec2Isabelle
  imports Complex_Main "HOL-Library.Sublist"
begin

section \<open>Numbers\<close>

text \<open>
  A JavaScript \<^verbatim>\<open>number\<close>, a binary64 floating-point value. The comparisons of the
  source (\<^verbatim>\<open>!==\<close>, \<^verbatim>\<open>>\<close> and \<^verbatim>\<open><=\<close>) decide its branches, and on
  \<^verbatim>\<open>NaN\<close> the first is always true and the other two are always false, so
  \<^verbatim>\<open>NaN\<close> and the two infinities are values of the model. A finite number is the real
  it denotes; the product of two of them is rounded as binary64 arithmetic rounds it
  (\<open>round_binary64\<close> below). The two zeros are one value, as they are for every
  comparison of the source.
\<close>

datatype number = NaN | NegInf | Fin real | PosInf

text \<open>\<^verbatim>\<open>x > y\<close> on numbers: false as soon as one side is \<^verbatim>\<open>NaN\<close>.\<close>

fun js_gt :: "number \<Rightarrow> number \<Rightarrow> bool" where
  "js_gt NaN y = False"
| "js_gt x NaN = False"
| "js_gt PosInf y = (y \<noteq> PosInf)"
| "js_gt x PosInf = False"
| "js_gt x NegInf = (x \<noteq> NegInf)"
| "js_gt NegInf y = False"
| "js_gt (Fin a) (Fin b) = (a > b)"

text \<open>\<^verbatim>\<open>x <= y\<close> on numbers: false as soon as one side is \<^verbatim>\<open>NaN\<close>.\<close>

fun js_le :: "number \<Rightarrow> number \<Rightarrow> bool" where
  "js_le NaN y = False"
| "js_le x NaN = False"
| "js_le NegInf y = True"
| "js_le x PosInf = True"
| "js_le PosInf y = False"
| "js_le x NegInf = False"
| "js_le (Fin a) (Fin b) = (a \<le> b)"

text \<open>
  Rounding of a real to binary64: to the nearest value with 53 significant bits, a tie to
  the one with the even significand; the exponent does not go below \<open>-1022\<close>, so the
  small values are multiples of \<open>2 powi (- 1074)\<close> and the smallest round to zero; a
  result that would reach \<open>2 ^ 1024\<close> is an infinity. \<open>floor_log2 x\<close> is the integer
  part of the binary logarithm of a positive \<open>x\<close>.
\<close>

function floor_log2 :: "real \<Rightarrow> int" where
  "floor_log2 x =
     (if x \<le> 0 then 0
      else if 2 \<le> x then floor_log2 (x / 2) + 1
      else if x < 1 then floor_log2 (2 * x) - 1
      else 0)"
  by pat_completeness auto
termination
proof (relation "measure (\<lambda>x. nat \<bar>\<lfloor>log 2 x\<rfloor>\<bar>)")
  show "wf (measure (\<lambda>x. nat \<bar>\<lfloor>log 2 x\<rfloor>\<bar>))"
    by simp
next
  fix x :: real
  assume "\<not> x \<le> 0" "2 \<le> x"
  then have "log 2 (x / 2) = log 2 x - 1" "1 \<le> log 2 x"
    by (simp_all add: log_divide le_log_iff)
  then have "\<lfloor>log 2 (x / 2)\<rfloor> = \<lfloor>log 2 x\<rfloor> - 1" "1 \<le> \<lfloor>log 2 x\<rfloor>"
    by (simp_all add: le_floor_iff)
  then have "nat \<bar>\<lfloor>log 2 (x / 2)\<rfloor>\<bar> < nat \<bar>\<lfloor>log 2 x\<rfloor>\<bar>"
    by linarith
  then show "(x / 2, x) \<in> measure (\<lambda>x. nat \<bar>\<lfloor>log 2 x\<rfloor>\<bar>)"
    by simp
next
  fix x :: real
  assume "\<not> x \<le> 0" "\<not> 2 \<le> x" "x < 1"
  then have "log 2 (2 * x) = log 2 x + 1" "log 2 x < 0"
    by (simp_all add: log_mult)
  then have "\<lfloor>log 2 (2 * x)\<rfloor> = \<lfloor>log 2 x\<rfloor> + 1" "\<lfloor>log 2 x\<rfloor> < 0"
    by (simp_all add: floor_less_iff)
  then have "nat \<bar>\<lfloor>log 2 (2 * x)\<rfloor>\<bar> < nat \<bar>\<lfloor>log 2 x\<rfloor>\<bar>"
    by linarith
  then show "(2 * x, x) \<in> measure (\<lambda>x. nat \<bar>\<lfloor>log 2 x\<rfloor>\<bar>)"
    by simp
qed

definition round_half_even :: "real \<Rightarrow> int" where
  "round_half_even q =
     (let f = \<lfloor>q\<rfloor>; d = q - of_int f
      in if d < 1 / 2 then f else if 1 / 2 < d then f + 1 else if even f then f else f + 1)"

definition round_binary64 :: "real \<Rightarrow> number" where
  "round_binary64 x =
     (if x = 0 then Fin 0
      else
        let e = max (floor_log2 \<bar>x\<bar>) (- 1022);
            ulp = 2 powi (e - 52);
            y = of_int (round_half_even (x / ulp)) * ulp
        in if 2 ^ 1024 \<le> \<bar>y\<bar> then (if x < 0 then NegInf else PosInf) else Fin y)"

text \<open>
  \<^verbatim>\<open>x * y\<close> on numbers: the rounded product of two finite numbers; \<^verbatim>\<open>NaN\<close> for
  \<^verbatim>\<open>NaN\<close> and for zero times an infinity; otherwise the infinity of the product's sign.
\<close>

fun js_sign :: "number \<Rightarrow> int" where
  "js_sign NaN = 0"
| "js_sign NegInf = - 1"
| "js_sign PosInf = 1"
| "js_sign (Fin a) = (if a < 0 then - 1 else if a = 0 then 0 else 1)"

fun js_mul :: "number \<Rightarrow> number \<Rightarrow> number" where
  "js_mul NaN y = NaN"
| "js_mul x NaN = NaN"
| "js_mul (Fin a) (Fin b) = round_binary64 (a * b)"
| "js_mul x y =
     (if js_sign x * js_sign y = 0 then NaN
      else if js_sign x * js_sign y < 0 then NegInf else PosInf)"

text \<open>
  \<^verbatim>\<open>value !== stored\<close>, where \<^verbatim>\<open>value\<close> is a number and \<^verbatim>\<open>stored\<close> is a
  number or \<^verbatim>\<open>undefined\<close> (\<open>None\<close>): a number is never strictly equal to
  \<^verbatim>\<open>undefined\<close>, and \<^verbatim>\<open>NaN\<close> is strictly equal to nothing, itself included.
\<close>

fun strict_neq :: "number \<Rightarrow> number option \<Rightarrow> bool" where
  "strict_neq v None = True"
| "strict_neq v (Some s) = (v = NaN \<or> s = NaN \<or> v \<noteq> s)"

section \<open>Materials with the fading feature\<close>

text \<open>
  The fields of a material that \<^verbatim>\<open>MapMeshMaterials.ts\<close> reads or writes. A field that may
  be \<^verbatim>\<open>undefined\<close> is an option; \<open>defines_map\<close> is the field
  \<^verbatim>\<open>defines\<close>. \<^verbatim>\<open>m_fadeNear\<close> and \<^verbatim>\<open>m_fadeFar\<close> are
  \<^verbatim>\<open>undefined\<close> on a material until a setter has run: the mixin is applied without its
  properties, so the initialisers of \<^verbatim>\<open>FadingFeatureMixin\<close> do not run for
  \<^verbatim>\<open>MapMeshBasicMaterial\<close> and \<^verbatim>\<open>MapMeshStandardMaterial\<close>.

  \<open>updateCalls\<close> is a ghost field: it counts the calls of
  \<^verbatim>\<open>FadingFeature.updateDistanceFadeFeature\<close> on the material, so that "the procedure
  runs" is a statement about the state. No function branches on it.
\<close>

record material =
  needsUpdate :: "bool option"
  defines_map :: "(string \<rightharpoonup> string) option"
  uniformsNeedUpdate :: "bool option"
  transparent :: "bool option"
  m_fadeNear :: "number option"
  m_fadeFar :: "number option"
  updateCalls :: nat

definition DEFAULT_FADE_NEAR :: number where
  "DEFAULT_FADE_NEAR = Fin (- 1)"

definition DEFAULT_FADE_FAR :: number where
  "DEFAULT_FADE_FAR = Fin (- 1)"

text \<open>The getters, which the accessor properties \<^verbatim>\<open>fadeNear\<close> and \<^verbatim>\<open>fadeFar\<close> call.\<close>

definition getFadeNear :: "material \<Rightarrow> number option" where
  "getFadeNear this = m_fadeNear this"

definition getFadeFar :: "material \<Rightarrow> number option" where
  "getFadeFar this = m_fadeFar this"

text \<open>Truthiness of a flag that is \<^verbatim>\<open>true\<close>, \<^verbatim>\<open>false\<close> or \<^verbatim>\<open>undefined\<close>.\<close>

definition truthy :: "bool option \<Rightarrow> bool" where
  "truthy b = (b = Some True)"

text \<open>
  \<^verbatim>\<open>FadingFeature.updateDistanceFadeFeature\<close>. The define is added when
  \<^verbatim>\<open>fadeFar\<close> is a number greater than zero; no branch removes it.
\<close>

definition updateDistanceFadeFeature :: "material \<Rightarrow> material" where
  "updateDistanceFadeFeature fadingMaterial =
     (let m1 = fadingMaterial\<lparr>needsUpdate := Some True,
                               updateCalls := Suc (updateCalls fadingMaterial)\<rparr>;
          d = (case defines_map m1 of None \<Rightarrow> Map.empty | Some d0 \<Rightarrow> d0);
          m2 = m1\<lparr>defines_map := Some d\<rparr>
      in case getFadeFar m2 of
           None \<Rightarrow> m2
         | Some far_value \<Rightarrow>
             if js_gt far_value (Fin 0)
             then m2\<lparr>defines_map := Some (d(''FADING_MATERIAL'' \<mapsto> ''''))\<rparr>
             else m2)"

text \<open>
  The setters of \<^verbatim>\<open>FadingFeatureMixin\<close>. \<^verbatim>\<open>a || b\<close> is \<^verbatim>\<open>a\<close> when
  \<^verbatim>\<open>a\<close> is truthy and \<^verbatim>\<open>b\<close> otherwise, so the flag is a boolean afterwards.
\<close>

definition setFadeNear :: "number \<Rightarrow> material \<Rightarrow> material" where
  "setFadeNear v this =
     (let m1 = this\<lparr>needsUpdate :=
                 (if truthy (needsUpdate this) then needsUpdate this
                  else Some (strict_neq v (m_fadeNear this)))\<rparr>;
          m2 = m1\<lparr>m_fadeNear := Some v\<rparr>
      in if truthy (needsUpdate m2) then updateDistanceFadeFeature m2 else m2)"

definition setFadeFar :: "number \<Rightarrow> material \<Rightarrow> material" where
  "setFadeFar v this =
     (let m1 = this\<lparr>needsUpdate :=
                 (if truthy (needsUpdate this) then needsUpdate this
                  else Some (strict_neq v (m_fadeFar this)))\<rparr>;
          m2 = m1\<lparr>m_fadeFar := Some v\<rparr>
      in if truthy (needsUpdate m2) then updateDistanceFadeFeature m2 else m2)"

text \<open>Whether the marker define is in the defines map of a material.\<close>

definition has_fading_define :: "material \<Rightarrow> bool" where
  "has_fading_define m =
     (case defines_map m of None \<Rightarrow> False | Some d \<Rightarrow> d ''FADING_MATERIAL'' \<noteq> None)"

section \<open>Inserting shader includes\<close>

text \<open>
  \<^verbatim>\<open>s.indexOf(pat)\<close>: the position of the first occurrence of \<open>pat\<close> in \<open>s\<close>, or
  \<open>None\<close> where JavaScript returns \<^verbatim>\<open>-1\<close>.
\<close>

fun indexOf :: "string \<Rightarrow> string \<Rightarrow> nat option" where
  "indexOf [] pat = (if pat = [] then Some 0 else None)"
| "indexOf (c # cs) pat =
     (if take (length pat) (c # cs) = pat then Some 0 else map_option Suc (indexOf cs pat))"

text \<open>
  The expansion of a replacement text by \<^verbatim>\<open>String.prototype.replace\<close> when the pattern
  is a string (there are no capture groups): \<^verbatim>\<open>$$\<close> is a dollar sign, \<^verbatim>\<open>$&\<close>
  the matched text, \<^verbatim>\<open>$\<close> with a backquote the text before the match, \<^verbatim>\<open>$\<close>
  with an apostrophe the text after it, and any other \<^verbatim>\<open>$\<close> stands for itself.
\<close>

fun getSubstitution :: "string \<Rightarrow> string \<Rightarrow> string \<Rightarrow> string \<Rightarrow> string" where
  "getSubstitution matched preceding following [] = []"
| "getSubstitution matched preceding following [c] = [c]"
| "getSubstitution matched preceding following (c # d # rest) =
     (if c = CHR ''$'' \<and> d = CHR ''$'' then CHR ''$'' # getSubstitution matched preceding following rest
      else if c = CHR ''$'' \<and> d = CHR ''&'' then matched @ getSubstitution matched preceding following rest
      else if c = CHR ''$'' \<and> d = CHR 0x60 then preceding @ getSubstitution matched preceding following rest
      else if c = CHR ''$'' \<and> d = CHR 0x27 then following @ getSubstitution matched preceding following rest
      else c # getSubstitution matched preceding following (d # rest))"

text \<open>
  \<^verbatim>\<open>s.replace(pat, replacement)\<close> with a string pattern: the first occurrence only is
  replaced, and a string without the pattern is returned as it is.
\<close>

definition js_replace :: "string \<Rightarrow> string \<Rightarrow> string \<Rightarrow> string" where
  "js_replace s pat replacement =
     (case indexOf s pat of
        None \<Rightarrow> s
      | Some i \<Rightarrow>
          take i s
          @ getSubstitution pat (take i s) (drop (i + length pat) s) replacement
          @ drop (i + length pat) s)"

text \<open>
  \<^verbatim>\<open>FadingFeature.insertShaderInclude\<close>. The optional \<^verbatim>\<open>addTab\<close> is an option;
  \<^verbatim>\<open>addTab === true\<close> holds for \<open>Some True\<close> only.
\<close>

definition insertShaderInclude :: "string \<Rightarrow> string \<Rightarrow> string \<Rightarrow> bool option \<Rightarrow> string" where
  "insertShaderInclude shaderContent shaderName insertedShaderName addTab =
     (let tabChar = (if addTab = Some True then [CHR 0x09] else [])
      in js_replace shaderContent
           (''#include <'' @ shaderName @ ''>'')
           (''\<newline>#include <'' @ shaderName @ ''>\<newline>''
            @ ''// << Patched fading shader START >>\<newline>''
            @ tabChar @ ''#include <'' @ insertedShaderName @ ''>\<newline>''
            @ ''// << Patched fading shader END >>\<newline>''))"

section \<open>The compile-time hook\<close>

text \<open>
  The \<^verbatim>\<open>value\<close> of a uniform is \<^verbatim>\<open>any\<close>: \<^verbatim>\<open>undefined\<close>, a number, or a
  value of the rendering library (\<open>Other\<close>). A shader is the object that the rendering
  library hands to \<^verbatim>\<open>onBeforeCompile\<close>; its \<open>uniforms\<close> map each name to the
  \<^verbatim>\<open>value\<close> of the uniform of that name.
\<close>

datatype 'a any = Undefined | Number number | Other 'a

fun any_of :: "number option \<Rightarrow> 'a any" where
  "any_of None = Undefined"
| "any_of (Some n) = Number n"

record 'a shader =
  uniforms :: "string \<rightharpoonup> 'a any"
  vertexShader :: string
  fragmentShader :: string

text \<open>\<^verbatim>\<open>FadingFeature.onBeforeCompile\<close>. It changes the shader only.\<close>

definition onBeforeCompile :: "material \<Rightarrow> 'a shader \<Rightarrow> 'a shader" where
  "onBeforeCompile fadingMaterial shader =
     (case getFadeFar fadingMaterial of
        None \<Rightarrow> shader
      | Some far_value \<Rightarrow>
          if js_le far_value (Fin 0) then shader
          else
            let s1 = shader\<lparr>uniforms :=
                       (uniforms shader)(''fadeNear'' \<mapsto> any_of (getFadeNear fadingMaterial))\<rparr>;
                s2 = s1\<lparr>uniforms :=
                       (uniforms s1)(''fadeFar'' \<mapsto> any_of (getFadeFar fadingMaterial))\<rparr>;
                s3 = s2\<lparr>vertexShader :=
                       insertShaderInclude (vertexShader s2)
                         ''fog_pars_vertex'' ''fading_pars_vertex'' None\<rparr>;
                s4 = s3\<lparr>vertexShader :=
                       insertShaderInclude (vertexShader s3)
                         ''fog_vertex'' ''fading_vertex'' (Some True)\<rparr>;
                s5 = s4\<lparr>fragmentShader :=
                       insertShaderInclude (fragmentShader s4)
                         ''fog_pars_fragment'' ''fading_pars_fragment'' None\<rparr>
            in s5\<lparr>fragmentShader :=
                       insertShaderInclude (fragmentShader s5)
                         ''fog_fragment'' ''fading_fragment'' (Some True)\<rparr>)"

section \<open>The render hooks\<close>

text \<open>
  Of the renderer, the hooks use \<^verbatim>\<open>renderer.properties.get(material).shader\<close>, the
  compiled shader of the material or \<^verbatim>\<open>undefined\<close>; of the camera, its far plane.
  A hook works on the renderer and the material, and either returns or throws, with the
  state it has reached in both cases.
\<close>

record 'a renderer =
  properties_shader :: "'a shader option"

record camera =
  far :: number

datatype error = TypeError

datatype 's completion = Returned 's | Threw error 's

fun state_of :: "'s completion \<Rightarrow> 's" where
  "state_of (Returned s) = s"
| "state_of (Threw e s) = s"

type_synonym 'a render_hook =
  "camera \<Rightarrow> 'a renderer \<times> material \<Rightarrow> ('a renderer \<times> material) completion"

type_synonym 'a render_callback = "'a renderer \<times> material \<Rightarrow> 'a renderer \<times> material"

record 'a Object3D =
  onBeforeRender :: "'a render_hook"
  onAfterRender :: "'a render_hook"

definition cameraToWorldDistance :: "number \<Rightarrow> camera \<Rightarrow> number" where
  "cameraToWorldDistance distance cam = js_mul distance (far cam)"

text \<open>
  The function that \<^verbatim>\<open>addRenderHelper\<close> assigns to \<^verbatim>\<open>object.onBeforeRender\<close>.
  The assignments to \<^verbatim>\<open>fadeNear\<close> and \<^verbatim>\<open>fadeFar\<close> go through the setters.
  Writing \<^verbatim>\<open>uniforms.fadeNear.value\<close> throws a \<^verbatim>\<open>TypeError\<close> when the shader has no
  such uniform; the writes before it stay.
\<close>

definition beforeRender ::
  "number option \<Rightarrow> number option \<Rightarrow> bool \<Rightarrow> bool \<Rightarrow> 'a render_callback option
    \<Rightarrow> 'a render_hook" where
  "beforeRender fadeNear_arg fadeFar_arg forceMaterialToTransparent updateUniforms
      additionalCallback cam st =
     (let rdr = fst st;
          m0 = snd st;
          m1 = (if forceMaterialToTransparent then m0\<lparr>transparent := Some True\<rparr> else m0);
          m2 = setFadeNear
                 (case fadeNear_arg of
                    None \<Rightarrow> DEFAULT_FADE_NEAR
                  | Some d \<Rightarrow> cameraToWorldDistance d cam) m1;
          m3 = setFadeFar
                 (case fadeFar_arg of
                    None \<Rightarrow> DEFAULT_FADE_FAR
                  | Some d \<Rightarrow> cameraToWorldDistance d cam) m2;
          finish = (\<lambda>s. case additionalCallback of
                            None \<Rightarrow> Returned s
                          | Some callback \<Rightarrow> Returned (callback s))
      in if updateUniforms then
           (case properties_shader rdr of
              None \<Rightarrow> finish (rdr, m3)
            | Some sh \<Rightarrow>
                if uniforms sh ''fadeNear'' = None then Threw TypeError (rdr, m3)
                else
                  let sh1 = sh\<lparr>uniforms :=
                              (uniforms sh)(''fadeNear'' \<mapsto> any_of (getFadeNear m3))\<rparr>
                  in if uniforms sh1 ''fadeFar'' = None
                     then Threw TypeError (rdr\<lparr>properties_shader := Some sh1\<rparr>, m3)
                     else
                       let sh2 = sh1\<lparr>uniforms :=
                                   (uniforms sh1)(''fadeFar'' \<mapsto> any_of (getFadeFar m3))\<rparr>
                       in finish (rdr\<lparr>properties_shader := Some sh2\<rparr>,
                                  m3\<lparr>uniformsNeedUpdate := Some True\<rparr>))
         else finish (rdr, m3))"

text \<open>The function that \<^verbatim>\<open>addRenderHelper\<close> assigns to \<^verbatim>\<open>object.onAfterRender\<close>.\<close>

definition afterRender :: "'a render_hook" where
  "afterRender cam st = Returned (fst st, (snd st)\<lparr>transparent := Some False\<rparr>)"

text \<open>
  \<^verbatim>\<open>FadingFeature.addRenderHelper\<close>. The after-render hook is assigned only when the
  material is forced to be transparent; otherwise the object keeps the one it has.
\<close>

definition addRenderHelper ::
  "'a Object3D \<Rightarrow> number option \<Rightarrow> number option \<Rightarrow> bool \<Rightarrow> bool
    \<Rightarrow> 'a render_callback option \<Rightarrow> 'a Object3D" where
  "addRenderHelper object fadeNear_arg fadeFar_arg forceMaterialToTransparent updateUniforms
      additionalCallback =
     (let object1 = object\<lparr>onBeforeRender :=
                      beforeRender fadeNear_arg fadeFar_arg forceMaterialToTransparent
                        updateUniforms additionalCallback\<rparr>
      in if forceMaterialToTransparent
         then object1\<lparr>onAfterRender := afterRender\<rparr>
         else object1)"

text \<open>
  An object of the rendering library before any helper is added: both of its hooks do
  nothing.
\<close>

definition plain_Object3D :: "'a Object3D" where
  "plain_Object3D = \<lparr>onBeforeRender = (\<lambda>cam st. Returned st),
                     onAfterRender = (\<lambda>cam st. Returned st)\<rparr>"

section \<open>The materials\<close>

text \<open>
  \<^verbatim>\<open>THREE.ShaderChunk\<close>, the global registry of shader chunks by name.
  \<^verbatim>\<open>fadingShaderChunk\<close>, the table of \<^verbatim>\<open>ShaderChunks/FadingChunks\<close>, is a parameter;
  \<^verbatim>\<open>Object.assign\<close> writes each of its entries into the registry.
\<close>

type_synonym ShaderChunk = "string \<rightharpoonup> string"

definition patchGlobalShaderChunks :: "ShaderChunk \<Rightarrow> ShaderChunk \<Rightarrow> ShaderChunk" where
  "patchGlobalShaderChunks fadingShaderChunk registry =
     (if registry ''fading_pars_vertex'' = None then registry ++ fadingShaderChunk
      else registry)"

record FadingFeatureParameters =
  fadeNear :: "number option"
  fadeFar :: "number option"

text \<open>
  \<^verbatim>\<open>FadingFeatureMixin.applyFadingParameters\<close>. The closure it assigns to
  \<^verbatim>\<open>onBeforeCompile\<close> calls \<^verbatim>\<open>FadingFeature.onBeforeCompile\<close> with the material
  itself, which \<open>onBeforeCompile\<close> above takes as its first argument.
\<close>

definition applyFadingParameters :: "FadingFeatureParameters option \<Rightarrow> material \<Rightarrow> material" where
  "applyFadingParameters params this =
     (case params of
        None \<Rightarrow> this
      | Some p \<Rightarrow>
          let m1 = (case fadeNear p of None \<Rightarrow> this | Some n \<Rightarrow> setFadeNear n this)
          in (case fadeFar p of None \<Rightarrow> m1 | Some f \<Rightarrow> setFadeFar f m1))"

text \<open>\<^verbatim>\<open>FadingFeatureMixin.copyFadingParameters\<close>, for a source other than the target.\<close>

definition copyFadingParameters :: "material \<Rightarrow> material \<Rightarrow> material" where
  "copyFadingParameters source this =
     (let m1 = setFadeNear
                 (case getFadeNear source of None \<Rightarrow> DEFAULT_FADE_NEAR | Some n \<Rightarrow> n) this
      in setFadeFar
           (case getFadeFar source of None \<Rightarrow> DEFAULT_FADE_FAR | Some f \<Rightarrow> f) m1)"

text \<open>
  The constructors. \<open>base\<close> is the object as the constructor of the rendering library's
  material leaves it (\<^verbatim>\<open>super(params)\<close>); \<^verbatim>\<open>addFadingProperties\<close> defines the two
  accessor properties, which the model reads and writes through the getters and setters.
  A constructor returns the material and the registry.
\<close>

definition MapMeshBasicMaterial_new ::
  "ShaderChunk \<Rightarrow> material \<Rightarrow> FadingFeatureParameters option \<Rightarrow> ShaderChunk
    \<Rightarrow> material \<times> ShaderChunk" where
  "MapMeshBasicMaterial_new fadingShaderChunk base params registry =
     (let registry1 = patchGlobalShaderChunks fadingShaderChunk registry
      in (applyFadingParameters params base, registry1))"

definition MapMeshStandardMaterial_new ::
  "ShaderChunk \<Rightarrow> material \<Rightarrow> FadingFeatureParameters option \<Rightarrow> ShaderChunk
    \<Rightarrow> material \<times> ShaderChunk" where
  "MapMeshStandardMaterial_new fadingShaderChunk base params registry =
     (let registry1 = patchGlobalShaderChunks fadingShaderChunk registry
      in (applyFadingParameters params base, registry1))"

text \<open>
  \<^verbatim>\<open>copy\<close> and \<^verbatim>\<open>clone\<close>. \<open>super_copy\<close> is the \<^verbatim>\<open>copy\<close> of the rendering
  library's material, from the source into the target; \<open>base\<close> is the object that
  \<^verbatim>\<open>super()\<close> leaves for the clone.
\<close>

definition MapMeshBasicMaterial_copy ::
  "(material \<Rightarrow> material \<Rightarrow> material) \<Rightarrow> material \<Rightarrow> material \<Rightarrow> material" where
  "MapMeshBasicMaterial_copy super_copy source this =
     copyFadingParameters source (super_copy source this)"

definition MapMeshBasicMaterial_clone ::
  "ShaderChunk \<Rightarrow> material \<Rightarrow> (material \<Rightarrow> material \<Rightarrow> material) \<Rightarrow> material \<Rightarrow> ShaderChunk
    \<Rightarrow> material \<times> ShaderChunk" where
  "MapMeshBasicMaterial_clone fadingShaderChunk base super_copy this registry =
     (let created = MapMeshBasicMaterial_new fadingShaderChunk base None registry
      in (MapMeshBasicMaterial_copy super_copy this (fst created), snd created))"

definition MapMeshStandardMaterial_copy ::
  "(material \<Rightarrow> material \<Rightarrow> material) \<Rightarrow> material \<Rightarrow> material \<Rightarrow> material" where
  "MapMeshStandardMaterial_copy super_copy source this =
     copyFadingParameters source (super_copy source this)"

definition MapMeshStandardMaterial_clone ::
  "ShaderChunk \<Rightarrow> material \<Rightarrow> (material \<Rightarrow> material \<Rightarrow> material) \<Rightarrow> material \<Rightarrow> ShaderChunk
    \<Rightarrow> material \<times> ShaderChunk" where
  "MapMeshStandardMaterial_clone fadingShaderChunk base super_copy this registry =
     (let created = MapMeshStandardMaterial_new fadingShaderChunk base None registry
      in (MapMeshStandardMaterial_copy super_copy this (fst created), snd created))"

text \<open>
  A run of constructions, of either class, one after the other on the same registry.
  \<open>registries\<close> lists the registry after each construction.
\<close>

datatype construction =
  Basic material "FadingFeatureParameters option"
| Standard material "FadingFeatureParameters option"

fun construct :: "ShaderChunk \<Rightarrow> construction \<Rightarrow> ShaderChunk \<Rightarrow> material \<times> ShaderChunk" where
  "construct fadingShaderChunk (Basic base params) registry =
     MapMeshBasicMaterial_new fadingShaderChunk base params registry"
| "construct fadingShaderChunk (Standard base params) registry =
     MapMeshStandardMaterial_new fadingShaderChunk base params registry"

fun registries :: "ShaderChunk \<Rightarrow> construction list \<Rightarrow> ShaderChunk \<Rightarrow> ShaderChunk list" where
  "registries fadingShaderChunk [] registry = []"
| "registries fadingShaderChunk (c # cs) registry =
     (let registry1 = snd (construct fadingShaderChunk c registry)
      in registry1 # registries fadingShaderChunk cs registry1)"

text \<open>A material on which nothing is set: every field is \<^verbatim>\<open>undefined\<close>.\<close>

definition blank_material :: material where
  "blank_material =
     \<lparr>needsUpdate = None, defines_map = None, uniformsNeedUpdate = None, transparent = None,
      m_fadeNear = None, m_fadeFar = None, updateCalls = 0\<rparr>"

section \<open>Properties of the numbers\<close>

lemma js_gt_not_le: "js_gt x y \<Longrightarrow> \<not> js_le x y"
  by (cases x; cases y) auto

text \<open>
  The rounding at work: \<^verbatim>\<open>0.1\<close> is the double \<open>3602879701896397 / 2 ^ 55\<close>, and
  \<^verbatim>\<open>0.1 * 1000\<close> is \<^verbatim>\<open>100\<close>; the square of \<open>2 ^ 27 + 1\<close> loses its last bit;
  \<open>2 ^ 1023\<close> doubled is an infinity; a quarter of the smallest positive double is zero.
\<close>

lemma round_binary64_examples:
  "round_binary64 (1 / 10) = Fin (3602879701896397 / 2 ^ 55)"
  "js_mul (Fin (3602879701896397 / 2 ^ 55)) (Fin 1000) = Fin 100"
  "js_mul (Fin (2 ^ 27 + 1)) (Fin (2 ^ 27 + 1)) = Fin (2 ^ 54 + 2 ^ 28)"
  "js_mul (Fin (2 ^ 1023)) (Fin 2) = PosInf"
  "js_mul (Fin (2 powi (- 1074))) (Fin (1 / 4)) = Fin 0"
  by (simp_all add: round_binary64_def round_half_even_def Let_def)

section \<open>Properties of the update procedure and the setters\<close>

lemma updateDistanceFadeFeature_fields:
  "m_fadeFar (updateDistanceFadeFeature m) = m_fadeFar m"
  "m_fadeNear (updateDistanceFadeFeature m) = m_fadeNear m"
  "needsUpdate (updateDistanceFadeFeature m) = Some True"
  "updateCalls (updateDistanceFadeFeature m) = Suc (updateCalls m)"
  "transparent (updateDistanceFadeFeature m) = transparent m"
  "uniformsNeedUpdate (updateDistanceFadeFeature m) = uniformsNeedUpdate m"
  by (simp_all add: updateDistanceFadeFeature_def getFadeFar_def Let_def split: option.splits)

lemma has_fading_define_update:
  "has_fading_define (updateDistanceFadeFeature m) =
     (has_fading_define m \<or> (\<exists>far_value. m_fadeFar m = Some far_value \<and> js_gt far_value (Fin 0)))"
  by (auto simp add: updateDistanceFadeFeature_def getFadeFar_def has_fading_define_def Let_def
        split: option.splits)

lemma setFadeNear_fields:
  "m_fadeNear (setFadeNear v m) = Some v"
  "m_fadeFar (setFadeNear v m) = m_fadeFar m"
  "transparent (setFadeNear v m) = transparent m"
  by (simp_all add: setFadeNear_def Let_def updateDistanceFadeFeature_fields)

lemma setFadeFar_fields:
  "m_fadeFar (setFadeFar v m) = Some v"
  "m_fadeNear (setFadeFar v m) = m_fadeNear m"
  "transparent (setFadeFar v m) = transparent m"
  by (simp_all add: setFadeFar_def Let_def updateDistanceFadeFeature_fields)

lemma has_fading_define_setFadeFar:
  "has_fading_define (setFadeFar v m) =
     (has_fading_define m \<or>
      ((truthy (needsUpdate m) \<or> strict_neq v (m_fadeFar m)) \<and> js_gt v (Fin 0)))"
  by (simp add: setFadeFar_def Let_def has_fading_define_update truthy_def)
     (simp add: has_fading_define_def)

text \<open>
  \<^verbatim>\<open>NaN\<close> is strictly unequal to every stored value, itself included, so setting it
  always runs the update procedure.
\<close>

lemma setFadeNear_NaN_updates: "updateCalls (setFadeNear NaN m) = Suc (updateCalls m)"
  by (cases "m_fadeNear m")
     (simp_all add: setFadeNear_def Let_def truthy_def updateDistanceFadeFeature_fields)

text \<open>
  C1, as the code has it. Setting \<^verbatim>\<open>fadeFar\<close> to a value greater than zero, when it was
  \<^verbatim>\<open>undefined\<close> or at most zero before, leaves the define \<^verbatim>\<open>FADING_MATERIAL\<close> in the
  defines map. Setting \<^verbatim>\<open>fadeFar\<close> to a value that is at most zero neither adds the
  define nor removes it: it is in the map afterwards exactly when it was there before.
\<close>

theorem setFadeFar_fading_define:
  "(js_gt v (Fin 0) \<and>
      (getFadeFar m = None \<or> (\<exists>p. getFadeFar m = Some p \<and> js_le p (Fin 0)))
      \<longrightarrow> has_fading_define (setFadeFar v m)) \<and>
   (js_le v (Fin 0) \<longrightarrow> has_fading_define (setFadeFar v m) = has_fading_define m)"
proof (intro conjI impI)
  assume a: "js_gt v (Fin 0) \<and>
    (getFadeFar m = None \<or> (\<exists>p. getFadeFar m = Some p \<and> js_le p (Fin 0)))"
  then have "strict_neq v (m_fadeFar m)"
    using js_gt_not_le [of v "Fin 0"] by (auto simp add: getFadeFar_def)
  with a show "has_fading_define (setFadeFar v m)"
    by (simp add: has_fading_define_setFadeFar)
next
  assume "js_le v (Fin 0)"
  then have "\<not> js_gt v (Fin 0)"
    using js_gt_not_le by blast
  then show "has_fading_define (setFadeFar v m) = has_fading_define m"
    by (simp add: has_fading_define_setFadeFar)
qed

theorem setFadeFar_fading_define_witness:
  "js_gt (Fin (8 / 10)) (Fin 0) \<and> getFadeFar blank_material = None \<and>
   has_fading_define (setFadeFar (Fin (8 / 10)) blank_material) \<and>
   js_le (Fin (- 1)) (Fin 0) \<and>
   has_fading_define (setFadeFar (Fin (- 1)) blank_material) = has_fading_define blank_material \<and>
   \<not> has_fading_define blank_material"
  using setFadeFar_fading_define [of "Fin (8 / 10)" blank_material]
    setFadeFar_fading_define [of "Fin (- 1)" blank_material]
  by (simp add: getFadeFar_def blank_material_def has_fading_define_def)

text \<open>
  C1, as it is written, fails: on a material whose \<^verbatim>\<open>fadeFar\<close> has been set to
  \<^verbatim>\<open>0.8\<close>, setting \<^verbatim>\<open>fadeFar\<close> to \<^verbatim>\<open>-1\<close> leaves the define in the map.
\<close>

theorem setFadeFar_disable_keeps_define:
  "js_le (Fin (- 1)) (Fin 0) \<and>
   has_fading_define (setFadeFar (Fin (- 1)) (setFadeFar (Fin (8 / 10)) blank_material))"
  by (simp add: setFadeFar_def updateDistanceFadeFeature_def getFadeFar_def blank_material_def
      has_fading_define_def truthy_def Let_def)

text \<open>
  C3. Setting \<^verbatim>\<open>fadeNear\<close> or \<^verbatim>\<open>fadeFar\<close> to \<open>v\<close> leaves the flag
  \<^verbatim>\<open>needsUpdate\<close> true exactly when \<open>v\<close> differs from the stored value (by
  \<^verbatim>\<open>!==\<close>) or the flag was true already, stores \<open>v\<close>, so that the getter returns it,
  and runs the update procedure once if the flag is true and not at all otherwise.
\<close>

theorem setFade_marks_stores_updates:
  "needsUpdate (setFadeNear v m) = Some (truthy (needsUpdate m) \<or> strict_neq v (m_fadeNear m)) \<and>
   getFadeNear (setFadeNear v m) = Some v \<and>
   updateCalls (setFadeNear v m) =
     updateCalls m + (if truthy (needsUpdate m) \<or> strict_neq v (m_fadeNear m) then 1 else 0) \<and>
   needsUpdate (setFadeFar v m) = Some (truthy (needsUpdate m) \<or> strict_neq v (m_fadeFar m)) \<and>
   getFadeFar (setFadeFar v m) = Some v \<and>
   updateCalls (setFadeFar v m) =
     updateCalls m + (if truthy (needsUpdate m) \<or> strict_neq v (m_fadeFar m) then 1 else 0)"
  by (simp add: setFadeNear_def setFadeFar_def getFadeNear_def getFadeFar_def truthy_def Let_def
        updateDistanceFadeFeature_fields)

text \<open>
  C8. The update procedure is idempotent on the defines map: a second call leaves the map
  as the first call has left it.
\<close>

theorem updateDistanceFadeFeature_idempotent:
  "defines_map (updateDistanceFadeFeature (updateDistanceFadeFeature m)) =
   defines_map (updateDistanceFadeFeature m)"
  by (auto simp add: updateDistanceFadeFeature_def getFadeFar_def Let_def split: option.splits)

text \<open>
  C10. On a material whose flag \<^verbatim>\<open>needsUpdate\<close> is \<^verbatim>\<open>false\<close>, setting
  \<^verbatim>\<open>fadeNear\<close> (or \<^verbatim>\<open>fadeFar\<close>) to the value it holds leaves the whole material as
  it is: the stored value, the flag, the defines map and the count of the calls of the update
  procedure. A value is the one the material holds when the comparison of the setter,
  \<^verbatim>\<open>!==\<close>, is false; it is true for \<^verbatim>\<open>NaN\<close> against \<^verbatim>\<open>NaN\<close>
  (\<open>setFadeNear_NaN_updates\<close>).
\<close>

theorem setFade_same_value_noop:
  assumes "needsUpdate m = Some False"
  shows "(\<not> strict_neq v (getFadeNear m) \<longrightarrow> setFadeNear v m = m) \<and>
         (\<not> strict_neq v (getFadeFar m) \<longrightarrow> setFadeFar v m = m)"
  using assms
  by (cases "m_fadeNear m"; cases "m_fadeFar m")
     (auto simp add: setFadeNear_def setFadeFar_def getFadeNear_def getFadeFar_def truthy_def
        Let_def)

theorem setFade_same_value_noop_witness:
  "needsUpdate (blank_material\<lparr>needsUpdate := Some False, m_fadeNear := Some (Fin (2 / 10)),
      m_fadeFar := Some (Fin (8 / 10))\<rparr>) = Some False \<and>
   \<not> strict_neq (Fin (2 / 10))
      (getFadeNear (blank_material\<lparr>needsUpdate := Some False, m_fadeNear := Some (Fin (2 / 10)),
         m_fadeFar := Some (Fin (8 / 10))\<rparr>)) \<and>
   setFadeNear (Fin (2 / 10))
      (blank_material\<lparr>needsUpdate := Some False, m_fadeNear := Some (Fin (2 / 10)),
         m_fadeFar := Some (Fin (8 / 10))\<rparr>) =
     blank_material\<lparr>needsUpdate := Some False, m_fadeNear := Some (Fin (2 / 10)),
       m_fadeFar := Some (Fin (8 / 10))\<rparr> \<and>
   \<not> strict_neq (Fin (8 / 10))
      (getFadeFar (blank_material\<lparr>needsUpdate := Some False, m_fadeNear := Some (Fin (2 / 10)),
         m_fadeFar := Some (Fin (8 / 10))\<rparr>)) \<and>
   setFadeFar (Fin (8 / 10))
      (blank_material\<lparr>needsUpdate := Some False, m_fadeNear := Some (Fin (2 / 10)),
         m_fadeFar := Some (Fin (8 / 10))\<rparr>) =
     blank_material\<lparr>needsUpdate := Some False, m_fadeNear := Some (Fin (2 / 10)),
       m_fadeFar := Some (Fin (8 / 10))\<rparr>"
  using setFade_same_value_noop
    [of "blank_material\<lparr>needsUpdate := Some False, m_fadeNear := Some (Fin (2 / 10)),
           m_fadeFar := Some (Fin (8 / 10))\<rparr>" "Fin (2 / 10)"]
    setFade_same_value_noop
    [of "blank_material\<lparr>needsUpdate := Some False, m_fadeNear := Some (Fin (2 / 10)),
           m_fadeFar := Some (Fin (8 / 10))\<rparr>" "Fin (8 / 10)"]
  by (simp add: getFadeNear_def getFadeFar_def)

section \<open>Properties of the shader patch\<close>

lemma getSubstitution_plain:
  "CHR ''$'' \<notin> set replacement \<Longrightarrow>
     getSubstitution matched preceding following replacement = replacement"
  by (induction matched preceding following replacement rule: getSubstitution.induct) auto

lemma take_length_eq_prefix: "take (length p) s = p \<longleftrightarrow> prefix p s"
  by (metis append_eq_conv_conj prefix_def)

lemma indexOf_None_iff: "indexOf s pat = None \<longleftrightarrow> \<not> sublist pat s"
  by (induction s)
     (auto simp add: take_length_eq_prefix sublist_Cons_right simp del: take_Suc_Cons)

lemma not_sublist_butlast: "pat \<noteq> [] \<Longrightarrow> \<not> sublist pat (butlast pat)"
  using sublist_length_le [of pat "butlast pat"]
  by (auto simp add: length_greater_0_conv [symmetric] simp del: length_greater_0_conv)

text \<open>
  The position that \<open>indexOf\<close> returns is that of the first occurrence: the pattern
  stands there, and it occurs nowhere in the text before its last character there.
\<close>

lemma indexOf_Some_split:
  "pat \<noteq> [] \<Longrightarrow> indexOf s pat = Some i \<Longrightarrow>
     s = take i s @ pat @ drop (i + length pat) s \<and>
     \<not> sublist pat (take i s @ butlast pat)"
proof (induction s arbitrary: i)
  case Nil
  then show ?case by (auto split: if_splits)
next
  case (Cons c cs)
  show ?case
  proof (cases "take (length pat) (c # cs) = pat")
    case True
    with Cons.prems have i: "i = 0" by simp
    have "c # cs = pat @ drop (length pat) (c # cs)"
      using True by (metis append_take_drop_id)
    with i Cons.prems(1) show ?thesis
      by (simp add: not_sublist_butlast)
  next
    case False
    with Cons.prems obtain j where j: "indexOf cs pat = Some j" "i = Suc j"
      by auto
    from Cons.IH [OF Cons.prems(1) j(1)]
    have ih1: "cs = take j cs @ pat @ drop (j + length pat) cs"
      and ih2: "\<not> sublist pat (take j cs @ butlast pat)" by auto
    have "\<not> prefix pat (c # take j cs @ butlast pat)"
    proof
      assume "prefix pat (c # take j cs @ butlast pat)"
      then have "prefix pat
          ((c # take j cs @ butlast pat) @ [last pat] @ drop (j + length pat) cs)"
        by (rule prefix_prefix)
      moreover have
        "(c # take j cs @ butlast pat) @ [last pat] @ drop (j + length pat) cs = c # cs"
        using ih1 Cons.prems(1) by (metis append.assoc append_Cons append_butlast_last_id)
      ultimately have "prefix pat (c # cs)" by simp
      with False show False using take_length_eq_prefix by blast
    qed
    with ih2 have "\<not> sublist pat (take i (c # cs) @ butlast pat)"
      using j(2) by (simp add: sublist_Cons_right)
    moreover have "c # cs = take i (c # cs) @ pat @ drop (i + length pat) (c # cs)"
      using ih1 j(2) by simp
    ultimately show ?thesis by blast
  qed
qed

lemma js_replace_absent: "\<not> sublist pat s \<Longrightarrow> js_replace s pat r = s"
  by (simp add: js_replace_def indexOf_None_iff [symmetric])

lemma js_replace_present:
  assumes "pat \<noteq> []" "sublist pat s" "CHR ''$'' \<notin> set r"
  shows "\<exists>pre post. s = pre @ pat @ post \<and> \<not> sublist pat (pre @ butlast pat) \<and>
           js_replace s pat r = pre @ r @ post"
proof -
  from assms(2) obtain i where i: "indexOf s pat = Some i"
    using indexOf_None_iff [of s pat] by auto
  from indexOf_Some_split [OF assms(1) i]
  have "s = take i s @ pat @ drop (i + length pat) s"
    and "\<not> sublist pat (take i s @ butlast pat)" by auto
  moreover have "js_replace s pat r = take i s @ r @ drop (i + length pat) s"
    using i assms(3) by (simp add: js_replace_def getSubstitution_plain)
  ultimately show ?thesis by blast
qed

text \<open>
  C4. For names without \<^verbatim>\<open>$\<close> (as the eight names of \<open>onBeforeCompile\<close> are): when
  the anchor directive occurs in the shader source, \<open>insertShaderInclude\<close> replaces its
  first occurrence by a line break, the anchor directive itself, the start marker, the new
  directive (after one tab character exactly when \<^verbatim>\<open>addTab\<close> is \<^verbatim>\<open>true\<close>) and the
  end marker, each on a line of its own, and leaves the text before and after it as it is.
  When the anchor directive does not occur, the source is returned unchanged. The hook
  inserts the two declaration directives without the tab and the two body directives with
  it.
\<close>

theorem insertShaderInclude_first_anchor:
  assumes "CHR ''$'' \<notin> set shaderName" and "CHR ''$'' \<notin> set insertedShaderName"
  shows
    "(sublist (''#include <'' @ shaderName @ ''>'') shaderContent \<longrightarrow>
        (\<exists>pre post.
           shaderContent = pre @ (''#include <'' @ shaderName @ ''>'') @ post \<and>
           \<not> sublist (''#include <'' @ shaderName @ ''>'')
                (pre @ butlast (''#include <'' @ shaderName @ ''>'')) \<and>
           insertShaderInclude shaderContent shaderName insertedShaderName addTab =
             pre
             @ ''\<newline>'' @ (''#include <'' @ shaderName @ ''>'') @ ''\<newline>''
             @ ''// << Patched fading shader START >>\<newline>''
             @ (if addTab = Some True then [CHR 0x09] else [])
             @ (''#include <'' @ insertedShaderName @ ''>'') @ ''\<newline>''
             @ ''// << Patched fading shader END >>\<newline>''
             @ post)) \<and>
     (\<not> sublist (''#include <'' @ shaderName @ ''>'') shaderContent \<longrightarrow>
        insertShaderInclude shaderContent shaderName insertedShaderName addTab = shaderContent) \<and>
     ((\<exists>far_value. getFadeFar m = Some far_value \<and> \<not> js_le far_value (Fin 0)) \<longrightarrow>
        vertexShader (onBeforeCompile m shader) =
          insertShaderInclude
            (insertShaderInclude (vertexShader shader)
               ''fog_pars_vertex'' ''fading_pars_vertex'' None)
            ''fog_vertex'' ''fading_vertex'' (Some True) \<and>
        fragmentShader (onBeforeCompile m shader) =
          insertShaderInclude
            (insertShaderInclude (fragmentShader shader)
               ''fog_pars_fragment'' ''fading_pars_fragment'' None)
            ''fog_fragment'' ''fading_fragment'' (Some True))"
proof (intro conjI impI)
  let ?pat = "''#include <'' @ shaderName @ ''>''"
  let ?tab = "if addTab = Some True then [CHR 0x09] else []"
  let ?r = "''\<newline>#include <'' @ shaderName @ ''>\<newline>''
            @ ''// << Patched fading shader START >>\<newline>''
            @ ?tab @ ''#include <'' @ insertedShaderName @ ''>\<newline>''
            @ ''// << Patched fading shader END >>\<newline>''"
  have r: "CHR ''$'' \<notin> set ?r"
    using assms by simp
  have ins: "insertShaderInclude shaderContent shaderName insertedShaderName addTab =
      js_replace shaderContent ?pat ?r"
    by (simp add: insertShaderInclude_def Let_def)
  {
    assume "sublist ?pat shaderContent"
    from js_replace_present [OF _ this r]
    obtain pre post where "shaderContent = pre @ ?pat @ post"
      "\<not> sublist ?pat (pre @ butlast ?pat)"
      "js_replace shaderContent ?pat ?r = pre @ ?r @ post"
      by auto
    then show "\<exists>pre post.
           shaderContent = pre @ (''#include <'' @ shaderName @ ''>'') @ post \<and>
           \<not> sublist (''#include <'' @ shaderName @ ''>'')
                (pre @ butlast (''#include <'' @ shaderName @ ''>'')) \<and>
           insertShaderInclude shaderContent shaderName insertedShaderName addTab =
             pre
             @ ''\<newline>'' @ (''#include <'' @ shaderName @ ''>'') @ ''\<newline>''
             @ ''// << Patched fading shader START >>\<newline>''
             @ (if addTab = Some True then [CHR 0x09] else [])
             @ (''#include <'' @ insertedShaderName @ ''>'') @ ''\<newline>''
             @ ''// << Patched fading shader END >>\<newline>''
             @ post"
      unfolding ins by (intro exI [of _ pre] exI [of _ post]) simp
  }
  {
    assume "\<not> sublist ?pat shaderContent"
    then show
      "insertShaderInclude shaderContent shaderName insertedShaderName addTab = shaderContent"
      unfolding ins by (rule js_replace_absent)
  }
  {
    assume "\<exists>far_value. getFadeFar m = Some far_value \<and> \<not> js_le far_value (Fin 0)"
    then obtain far_value where "getFadeFar m = Some far_value" "\<not> js_le far_value (Fin 0)"
      by blast
    then show "vertexShader (onBeforeCompile m shader) =
          insertShaderInclude
            (insertShaderInclude (vertexShader shader)
               ''fog_pars_vertex'' ''fading_pars_vertex'' None)
            ''fog_vertex'' ''fading_vertex'' (Some True)"
      and "fragmentShader (onBeforeCompile m shader) =
          insertShaderInclude
            (insertShaderInclude (fragmentShader shader)
               ''fog_pars_fragment'' ''fading_pars_fragment'' None)
            ''fog_fragment'' ''fading_fragment'' (Some True)"
      by (simp_all add: onBeforeCompile_def Let_def)
  }
qed

theorem insertShaderInclude_first_anchor_witness:
  "CHR ''$'' \<notin> set ''fog_vertex'' \<and> CHR ''$'' \<notin> set ''fading_vertex'' \<and>
   sublist ''#include <fog_vertex>'' ''a#include <fog_vertex>b'' \<and>
   (\<exists>pre post.
      ''a#include <fog_vertex>b'' = pre @ ''#include <fog_vertex>'' @ post \<and>
      \<not> sublist ''#include <fog_vertex>'' (pre @ butlast ''#include <fog_vertex>'') \<and>
      insertShaderInclude ''a#include <fog_vertex>b'' ''fog_vertex'' ''fading_vertex'' (Some True) =
        pre @ ''\<newline>#include <fog_vertex>\<newline>// << Patched fading shader START >>\<newline>''
        @ [CHR 0x09] @ ''#include <fading_vertex>\<newline>// << Patched fading shader END >>\<newline>''
        @ post) \<and>
   \<not> sublist ''#include <fog_vertex>'' ''void main() {}'' \<and>
   insertShaderInclude ''void main() {}'' ''fog_vertex'' ''fading_vertex'' (Some True) =
     ''void main() {}'' \<and>
   getFadeFar (setFadeFar (Fin (8 / 10)) blank_material) = Some (Fin (8 / 10)) \<and>
   \<not> js_le (Fin (8 / 10)) (Fin 0) \<and>
   vertexShader (onBeforeCompile (setFadeFar (Fin (8 / 10)) blank_material)
     (\<lparr>uniforms = Map.empty, vertexShader = ''a#include <fog_vertex>b'',
       fragmentShader = ''void main() {}''\<rparr> :: unit shader)) =
     insertShaderInclude
       (insertShaderInclude ''a#include <fog_vertex>b'' ''fog_pars_vertex'' ''fading_pars_vertex'' None)
       ''fog_vertex'' ''fading_vertex'' (Some True)"
proof -
  have d: "CHR ''$'' \<notin> set ''fog_vertex''" "CHR ''$'' \<notin> set ''fading_vertex''"
    by simp_all
  have present: "sublist ''#include <fog_vertex>'' ''a#include <fog_vertex>b''"
    by (simp add: sublist_Cons_right)
  have absent: "\<not> sublist ''#include <fog_vertex>'' ''void main() {}''"
    by (simp add: sublist_Cons_right)
  have enabled: "getFadeFar (setFadeFar (Fin (8 / 10)) blank_material) = Some (Fin (8 / 10))"
    "\<not> js_le (Fin (8 / 10)) (Fin 0)"
    by (simp_all add: getFadeFar_def setFadeFar_fields)
  show ?thesis
    using d present absent enabled
      insertShaderInclude_first_anchor [OF d, of "''a#include <fog_vertex>b''" "Some True"
        "setFadeFar (Fin (8 / 10)) blank_material"
        "\<lparr>uniforms = Map.empty, vertexShader = ''a#include <fog_vertex>b'',
          fragmentShader = ''void main() {}''\<rparr> :: unit shader"]
      insertShaderInclude_first_anchor [OF d, of "''void main() {}''" "Some True"
        "setFadeFar (Fin (8 / 10)) blank_material"
        "\<lparr>uniforms = Map.empty, vertexShader = ''a#include <fog_vertex>b'',
          fragmentShader = ''void main() {}''\<rparr> :: unit shader"]
    by simp
qed

text \<open>
  C5. On a material whose \<^verbatim>\<open>fadeFar\<close> is \<^verbatim>\<open>undefined\<close> or at most zero, the
  compile-time hook returns the shader as it got it: the vertex source, the fragment source
  and the uniforms are unchanged.
\<close>

theorem onBeforeCompile_disabled_noop:
  assumes "getFadeFar m = None \<or> (\<exists>x. getFadeFar m = Some x \<and> js_le x (Fin 0))"
  shows "onBeforeCompile m shader = shader"
  using assms by (auto simp add: onBeforeCompile_def)

theorem onBeforeCompile_disabled_noop_witness:
  "getFadeFar blank_material = None \<and>
   onBeforeCompile blank_material
     \<lparr>uniforms = Map.empty, vertexShader = ''#include <fog_vertex>'',
      fragmentShader = ''#include <fog_fragment>''\<rparr> =
     (\<lparr>uniforms = Map.empty, vertexShader = ''#include <fog_vertex>'',
      fragmentShader = ''#include <fog_fragment>''\<rparr> :: unit shader) \<and>
   getFadeFar (setFadeFar (Fin (- 1)) blank_material) = Some (Fin (- 1)) \<and>
   js_le (Fin (- 1)) (Fin 0) \<and>
   onBeforeCompile (setFadeFar (Fin (- 1)) blank_material)
     \<lparr>uniforms = Map.empty, vertexShader = ''#include <fog_vertex>'',
      fragmentShader = ''#include <fog_fragment>''\<rparr> =
     (\<lparr>uniforms = Map.empty, vertexShader = ''#include <fog_vertex>'',
      fragmentShader = ''#include <fog_fragment>''\<rparr> :: unit shader)"
  using onBeforeCompile_disabled_noop [of blank_material
      "\<lparr>uniforms = Map.empty, vertexShader = ''#include <fog_vertex>'',
        fragmentShader = ''#include <fog_fragment>''\<rparr> :: unit shader"]
    onBeforeCompile_disabled_noop [of "setFadeFar (Fin (- 1)) blank_material"
      "\<lparr>uniforms = Map.empty, vertexShader = ''#include <fog_vertex>'',
        fragmentShader = ''#include <fog_fragment>''\<rparr> :: unit shader"]
  by (simp add: getFadeFar_def setFadeFar_fields blank_material_def)

text \<open>Only the first of two anchors is replaced.\<close>

lemma insertShaderInclude_example:
  "insertShaderInclude ''a#include <fog_vertex>b#include <fog_vertex>c''
     ''fog_vertex'' ''fading_vertex'' (Some True) =
   ''a\<newline>#include <fog_vertex>\<newline>// << Patched fading shader START >>\<newline>''
   @ [CHR 0x09]
   @ ''#include <fading_vertex>\<newline>// << Patched fading shader END >>\<newline>''
   @ ''b#include <fog_vertex>c''"
  by (simp add: insertShaderInclude_def js_replace_def)

section \<open>Properties of the render hooks\<close>

lemma beforeRender_callback:
  "beforeRender n f force upd (Some callback) cam st =
     (case beforeRender n f force upd None cam st of
        Returned s \<Rightarrow> Returned (callback s)
      | Threw e s \<Rightarrow> Threw e s)"
  by (simp add: beforeRender_def Let_def split: option.splits)

lemma beforeRender_None_fields:
  "m_fadeNear (snd (state_of (beforeRender n f force upd None cam (rdr, m)))) =
     Some (case n of None \<Rightarrow> DEFAULT_FADE_NEAR | Some d \<Rightarrow> cameraToWorldDistance d cam)"
  "m_fadeFar (snd (state_of (beforeRender n f force upd None cam (rdr, m)))) =
     Some (case f of None \<Rightarrow> DEFAULT_FADE_FAR | Some d \<Rightarrow> cameraToWorldDistance d cam)"
  "transparent (snd (state_of (beforeRender n f force upd None cam (rdr, m)))) =
     (if force then Some True else transparent m)"
  by (simp_all add: beforeRender_def Let_def setFadeNear_fields setFadeFar_fields
        split: option.splits)

text \<open>
  The hook reaches a state that holds the two distances and the flag; there it throws, or
  from there it returns, through the additional callback when there is one.
\<close>

lemma beforeRender_reaches:
  "\<exists>s. m_fadeNear (snd s) =
          Some (case n of None \<Rightarrow> DEFAULT_FADE_NEAR | Some d \<Rightarrow> cameraToWorldDistance d cam) \<and>
        m_fadeFar (snd s) =
          Some (case f of None \<Rightarrow> DEFAULT_FADE_FAR | Some d \<Rightarrow> cameraToWorldDistance d cam) \<and>
        transparent (snd s) = (if force then Some True else transparent m) \<and>
        (beforeRender n f force upd cb cam (rdr, m) = Threw TypeError s \<or>
         beforeRender n f force upd cb cam (rdr, m) =
           Returned (case cb of None \<Rightarrow> s | Some callback \<Rightarrow> callback s))"
proof -
  let ?plain = "beforeRender n f force upd None cam (rdr, m)"
  have fields:
    "m_fadeNear (snd (state_of ?plain)) =
       Some (case n of None \<Rightarrow> DEFAULT_FADE_NEAR | Some d \<Rightarrow> cameraToWorldDistance d cam)"
    "m_fadeFar (snd (state_of ?plain)) =
       Some (case f of None \<Rightarrow> DEFAULT_FADE_FAR | Some d \<Rightarrow> cameraToWorldDistance d cam)"
    "transparent (snd (state_of ?plain)) = (if force then Some True else transparent m)"
    by (rule beforeRender_None_fields)+
  have "beforeRender n f force upd cb cam (rdr, m) = Threw TypeError (state_of ?plain) \<or>
        beforeRender n f force upd cb cam (rdr, m) =
          Returned (case cb of None \<Rightarrow> state_of ?plain | Some callback \<Rightarrow> callback (state_of ?plain))"
  proof (cases ?plain)
    case (Returned s)
    then show ?thesis
      by (cases cb) (simp_all add: beforeRender_callback)
  next
    case (Threw e s)
    moreover have "e = TypeError"
      by (cases e) simp
    ultimately show ?thesis
      by (cases cb) (simp_all add: beforeRender_callback)
  qed
  with fields show ?thesis
    by blast
qed

lemma addRenderHelper_onBeforeRender:
  "onBeforeRender (addRenderHelper object n f force upd cb) = beforeRender n f force upd cb"
  by (simp add: addRenderHelper_def Let_def)

lemma addRenderHelper_onAfterRender:
  "onAfterRender (addRenderHelper object n f True upd cb) = afterRender"
  "onAfterRender (addRenderHelper object n f False upd cb) = onAfterRender object"
  by (simp_all add: addRenderHelper_def Let_def)

text \<open>
  C2. One call of the before-render hook that \<open>addRenderHelper\<close> has installed reaches a
  state in which the material holds as \<^verbatim>\<open>fadeNear\<close> the product of the configured
  value and the far plane of the camera, or \<^verbatim>\<open>-1\<close> when no value was configured, and
  the same for \<^verbatim>\<open>fadeFar\<close>. In that state the hook throws, or from it the hook returns,
  after the additional callback has run on it when there is one.
\<close>

theorem beforeRender_world_distances:
  "\<exists>s. getFadeNear (snd s) =
          Some (case fadeNear_arg of None \<Rightarrow> Fin (- 1) | Some n \<Rightarrow> js_mul n (far cam)) \<and>
        getFadeFar (snd s) =
          Some (case fadeFar_arg of None \<Rightarrow> Fin (- 1) | Some f \<Rightarrow> js_mul f (far cam)) \<and>
        (onBeforeRender
           (addRenderHelper object fadeNear_arg fadeFar_arg force updateUniforms additionalCallback)
           cam (rdr, m) = Threw TypeError s \<or>
         onBeforeRender
           (addRenderHelper object fadeNear_arg fadeFar_arg force updateUniforms additionalCallback)
           cam (rdr, m) =
           Returned (case additionalCallback of None \<Rightarrow> s | Some callback \<Rightarrow> callback s))"
proof -
  have near: "(case fadeNear_arg of None \<Rightarrow> DEFAULT_FADE_NEAR
                | Some d \<Rightarrow> cameraToWorldDistance d cam) =
              (case fadeNear_arg of None \<Rightarrow> Fin (- 1) | Some n \<Rightarrow> js_mul n (far cam))"
    by (simp add: DEFAULT_FADE_NEAR_def cameraToWorldDistance_def split: option.splits)
  have far: "(case fadeFar_arg of None \<Rightarrow> DEFAULT_FADE_FAR
                | Some d \<Rightarrow> cameraToWorldDistance d cam) =
              (case fadeFar_arg of None \<Rightarrow> Fin (- 1) | Some f \<Rightarrow> js_mul f (far cam))"
    by (simp add: DEFAULT_FADE_FAR_def cameraToWorldDistance_def split: option.splits)
  from beforeRender_reaches
    [where n = fadeNear_arg and f = fadeFar_arg and cam = cam and force = force and m = m
       and upd = updateUniforms and cb = additionalCallback and rdr = rdr]
  show ?thesis
    unfolding near far addRenderHelper_onBeforeRender getFadeNear_def getFadeFar_def
    by blast
qed

text \<open>
  With the far plane at \<^verbatim>\<open>1000\<close>, the double \<^verbatim>\<open>0.1\<close> as \<^verbatim>\<open>fadeNear\<close> and
  \<^verbatim>\<open>0.5\<close> as \<^verbatim>\<open>fadeFar\<close>, the material holds \<^verbatim>\<open>100\<close> and \<^verbatim>\<open>500\<close>; with
  neither configured it holds \<^verbatim>\<open>-1\<close> twice.
\<close>

theorem beforeRender_world_distances_witness:
  "getFadeNear (snd (state_of (onBeforeRender
      (addRenderHelper plain_Object3D (Some (Fin (3602879701896397 / 2 ^ 55))) (Some (Fin (1 / 2)))
         True False None)
      \<lparr>far = Fin 1000\<rparr> (\<lparr>properties_shader = None\<rparr> :: unit renderer, blank_material)))) =
     Some (Fin 100) \<and>
   getFadeFar (snd (state_of (onBeforeRender
      (addRenderHelper plain_Object3D (Some (Fin (3602879701896397 / 2 ^ 55))) (Some (Fin (1 / 2)))
         True False None)
      \<lparr>far = Fin 1000\<rparr> (\<lparr>properties_shader = None\<rparr> :: unit renderer, blank_material)))) =
     Some (Fin 500) \<and>
   getFadeNear (snd (state_of (onBeforeRender
      (addRenderHelper plain_Object3D None None True False None)
      \<lparr>far = Fin 1000\<rparr> (\<lparr>properties_shader = None\<rparr> :: unit renderer, blank_material)))) =
     Some (Fin (- 1)) \<and>
   getFadeFar (snd (state_of (onBeforeRender
      (addRenderHelper plain_Object3D None None True False None)
      \<lparr>far = Fin 1000\<rparr> (\<lparr>properties_shader = None\<rparr> :: unit renderer, blank_material)))) =
     Some (Fin (- 1))"
proof -
  let ?configured = "onBeforeRender
      (addRenderHelper plain_Object3D (Some (Fin (3602879701896397 / 2 ^ 55))) (Some (Fin (1 / 2)))
         True False None)
      \<lparr>far = Fin 1000\<rparr> (\<lparr>properties_shader = None\<rparr> :: unit renderer, blank_material)"
  let ?unset = "onBeforeRender
      (addRenderHelper plain_Object3D None None True False None)
      \<lparr>far = Fin 1000\<rparr> (\<lparr>properties_shader = None\<rparr> :: unit renderer, blank_material)"
  have products: "js_mul (Fin (3602879701896397 / 2 ^ 55)) (Fin 1000) = Fin 100"
    "js_mul (Fin (1 / 2)) (Fin 1000) = Fin 500"
    by (simp_all add: round_binary64_def round_half_even_def Let_def)
  have "\<exists>s. getFadeNear (snd s) = Some (Fin 100) \<and> getFadeFar (snd s) = Some (Fin 500) \<and>
          (?configured = Threw TypeError s \<or> ?configured = Returned s)"
    using beforeRender_world_distances
      [where fadeNear_arg = "Some (Fin (3602879701896397 / 2 ^ 55))"
         and fadeFar_arg = "Some (Fin (1 / 2))" and cam = "\<lparr>far = Fin 1000\<rparr>"
         and object = plain_Object3D and force = True and updateUniforms = False
         and additionalCallback = None
         and rdr = "\<lparr>properties_shader = None\<rparr> :: unit renderer" and m = blank_material]
    by (simp only: option.case camera.select_convs products)
  then obtain s where s: "getFadeNear (snd s) = Some (Fin 100)"
    "getFadeFar (snd s) = Some (Fin 500)"
    "?configured = Threw TypeError s \<or> ?configured = Returned s"
    by blast
  from s(3) have "state_of ?configured = s"
    by (rule disjE) (simp_all only: state_of.simps)
  with s(1,2) have configured: "getFadeNear (snd (state_of ?configured)) = Some (Fin 100)"
    "getFadeFar (snd (state_of ?configured)) = Some (Fin 500)"
    by (simp_all only:)
  have "\<exists>s. getFadeNear (snd s) = Some (Fin (- 1)) \<and> getFadeFar (snd s) = Some (Fin (- 1)) \<and>
          (?unset = Threw TypeError s \<or> ?unset = Returned s)"
    using beforeRender_world_distances
      [where fadeNear_arg = None and fadeFar_arg = None and cam = "\<lparr>far = Fin 1000\<rparr>"
         and object = plain_Object3D and force = True and updateUniforms = False
         and additionalCallback = None
         and rdr = "\<lparr>properties_shader = None\<rparr> :: unit renderer" and m = blank_material]
    by (simp only: option.case)
  then obtain t where t: "getFadeNear (snd t) = Some (Fin (- 1))"
    "getFadeFar (snd t) = Some (Fin (- 1))"
    "?unset = Threw TypeError t \<or> ?unset = Returned t"
    by blast
  from t(3) have "state_of ?unset = t"
    by (rule disjE) (simp_all only: state_of.simps)
  with t(1,2) have unset: "getFadeNear (snd (state_of ?unset)) = Some (Fin (- 1))"
    "getFadeFar (snd (state_of ?unset)) = Some (Fin (- 1))"
    by (simp_all only:)
  from configured unset show ?thesis
    by (intro conjI)
qed

text \<open>
  C6, as the code has it. With \<^verbatim>\<open>forceMaterialToTransparent\<close> true, the before-render
  hook reaches a state in which the material is transparent, where it throws or from where
  it returns through the additional callback, and the after-render hook leaves the material
  not transparent. With it false, the before-render hook reaches in the same way a state with
  the flag as it was, and \<open>addRenderHelper\<close> assigns no after-render hook: the object
  keeps the one it has. That one does nothing on an object that had none assigned, and it
  is the resetting hook on an object to which an earlier call with
  \<^verbatim>\<open>forceMaterialToTransparent\<close> true has assigned it.
\<close>

theorem render_hooks_transparent:
  "(\<exists>s. transparent (snd s) = Some True \<and>
      (onBeforeRender
         (addRenderHelper object fadeNear_arg fadeFar_arg True updateUniforms additionalCallback)
         cam (rdr, m) = Threw TypeError s \<or>
       onBeforeRender
         (addRenderHelper object fadeNear_arg fadeFar_arg True updateUniforms additionalCallback)
         cam (rdr, m) =
         Returned (case additionalCallback of None \<Rightarrow> s | Some callback \<Rightarrow> callback s))) \<and>
   onAfterRender
     (addRenderHelper object fadeNear_arg fadeFar_arg True updateUniforms additionalCallback)
     cam (rdr, m) = Returned (rdr, m\<lparr>transparent := Some False\<rparr>) \<and>
   (\<exists>s. transparent (snd s) = transparent m \<and>
      (onBeforeRender
         (addRenderHelper object fadeNear_arg fadeFar_arg False updateUniforms additionalCallback)
         cam (rdr, m) = Threw TypeError s \<or>
       onBeforeRender
         (addRenderHelper object fadeNear_arg fadeFar_arg False updateUniforms additionalCallback)
         cam (rdr, m) =
         Returned (case additionalCallback of None \<Rightarrow> s | Some callback \<Rightarrow> callback s))) \<and>
   onAfterRender
     (addRenderHelper object fadeNear_arg fadeFar_arg False updateUniforms additionalCallback) =
     onAfterRender object \<and>
   onAfterRender
     (addRenderHelper plain_Object3D fadeNear_arg fadeFar_arg False updateUniforms
        additionalCallback) cam (rdr, m) = Returned (rdr, m) \<and>
   onAfterRender
     (addRenderHelper
        (addRenderHelper object fadeNear_arg0 fadeFar_arg0 True updateUniforms0 additionalCallback0)
        fadeNear_arg fadeFar_arg False updateUniforms additionalCallback)
     cam (rdr, m) = Returned (rdr, m\<lparr>transparent := Some False\<rparr>)"
proof (intro conjI)
  from beforeRender_reaches
    [where n = fadeNear_arg and f = fadeFar_arg and cam = cam and force = True and m = m
       and upd = updateUniforms and cb = additionalCallback and rdr = rdr]
  show "\<exists>s. transparent (snd s) = Some True \<and>
      (onBeforeRender
         (addRenderHelper object fadeNear_arg fadeFar_arg True updateUniforms additionalCallback)
         cam (rdr, m) = Threw TypeError s \<or>
       onBeforeRender
         (addRenderHelper object fadeNear_arg fadeFar_arg True updateUniforms additionalCallback)
         cam (rdr, m) =
         Returned (case additionalCallback of None \<Rightarrow> s | Some callback \<Rightarrow> callback s))"
    unfolding addRenderHelper_onBeforeRender by (simp only: if_True) blast
next
  from beforeRender_reaches
    [where n = fadeNear_arg and f = fadeFar_arg and cam = cam and force = False and m = m
       and upd = updateUniforms and cb = additionalCallback and rdr = rdr]
  show "\<exists>s. transparent (snd s) = transparent m \<and>
      (onBeforeRender
         (addRenderHelper object fadeNear_arg fadeFar_arg False updateUniforms additionalCallback)
         cam (rdr, m) = Threw TypeError s \<or>
       onBeforeRender
         (addRenderHelper object fadeNear_arg fadeFar_arg False updateUniforms additionalCallback)
         cam (rdr, m) =
         Returned (case additionalCallback of None \<Rightarrow> s | Some callback \<Rightarrow> callback s))"
    unfolding addRenderHelper_onBeforeRender by (simp only: if_False) blast
qed (simp_all add: addRenderHelper_onAfterRender afterRender_def plain_Object3D_def)

theorem render_hooks_transparent_witness:
  "transparent (snd (state_of (onBeforeRender
      (addRenderHelper plain_Object3D (Some (Fin (1 / 2))) (Some (Fin (1 / 2))) True False None)
      \<lparr>far = Fin 1000\<rparr> (\<lparr>properties_shader = None\<rparr> :: unit renderer, blank_material)))) =
     Some True \<and>
   transparent (snd (state_of (onAfterRender
      (addRenderHelper plain_Object3D (Some (Fin (1 / 2))) (Some (Fin (1 / 2))) True False None)
      \<lparr>far = Fin 1000\<rparr> (\<lparr>properties_shader = None\<rparr> :: unit renderer, blank_material)))) =
     Some False \<and>
   onAfterRender
      (addRenderHelper plain_Object3D (Some (Fin (1 / 2))) (Some (Fin (1 / 2))) False False None)
      \<lparr>far = Fin 1000\<rparr> (\<lparr>properties_shader = None\<rparr> :: unit renderer, blank_material) =
     Returned (\<lparr>properties_shader = None\<rparr>, blank_material)"
proof -
  let ?before = "onBeforeRender
      (addRenderHelper plain_Object3D (Some (Fin (1 / 2))) (Some (Fin (1 / 2))) True False None)
      \<lparr>far = Fin 1000\<rparr> (\<lparr>properties_shader = None\<rparr> :: unit renderer, blank_material)"
  note hooks = render_hooks_transparent
      [where object = plain_Object3D and fadeNear_arg = "Some (Fin (1 / 2))"
         and fadeFar_arg = "Some (Fin (1 / 2))" and updateUniforms = False
         and additionalCallback = None and cam = "\<lparr>far = Fin 1000\<rparr>"
         and rdr = "\<lparr>properties_shader = None\<rparr> :: unit renderer" and m = blank_material
         and fadeNear_arg0 = None and fadeFar_arg0 = None and updateUniforms0 = False
         and additionalCallback0 = None]
  from hooks have "\<exists>s. transparent (snd s) = Some True \<and>
      (?before = Threw TypeError s \<or> ?before = Returned s)"
    by (simp only: option.case)
  then obtain s where s: "transparent (snd s) = Some True"
    "?before = Threw TypeError s \<or> ?before = Returned s"
    by blast
  from s(2) have "state_of ?before = s"
    by (rule disjE) (simp_all only: state_of.simps)
  with s(1) have "transparent (snd (state_of ?before)) = Some True"
    by (simp only:)
  with hooks show ?thesis
    by (simp add: plain_Object3D_def)
qed

text \<open>
  C6, as it is written, fails for the after-render hook: on an object that an earlier call
  has given the resetting hook, a call with \<^verbatim>\<open>forceMaterialToTransparent\<close> false leaves
  that hook in place, and it turns a transparent material into one that is not.
\<close>

theorem render_hooks_unforced_after_resets:
  "transparent (blank_material\<lparr>transparent := Some True\<rparr>) = Some True \<and>
   transparent (snd (state_of (onAfterRender
      (addRenderHelper
         (addRenderHelper plain_Object3D None None True False None)
         None None False False None)
      \<lparr>far = Fin 1000\<rparr>
      (\<lparr>properties_shader = None\<rparr> :: unit renderer,
       blank_material\<lparr>transparent := Some True\<rparr>)))) = Some False"
  by (simp add: addRenderHelper_def afterRender_def Let_def)

section \<open>Properties of the materials\<close>

lemma copyFadingParameters_fields:
  "m_fadeNear (copyFadingParameters source this) =
     Some (case getFadeNear source of None \<Rightarrow> DEFAULT_FADE_NEAR | Some n \<Rightarrow> n)"
  "m_fadeFar (copyFadingParameters source this) =
     Some (case getFadeFar source of None \<Rightarrow> DEFAULT_FADE_FAR | Some f \<Rightarrow> f)"
  "transparent (copyFadingParameters source this) = transparent this"
  by (simp_all add: copyFadingParameters_def Let_def setFadeNear_fields setFadeFar_fields)

lemma applyFadingParameters_both:
  "m_fadeNear (applyFadingParameters (Some \<lparr>fadeNear = Some n, fadeFar = Some f\<rparr>) base) = Some n"
  "m_fadeFar (applyFadingParameters (Some \<lparr>fadeNear = Some n, fadeFar = Some f\<rparr>) base) = Some f"
  by (simp_all add: applyFadingParameters_def Let_def setFadeNear_fields setFadeFar_fields)

text \<open>
  C7. Let a material of either class be constructed with \<^verbatim>\<open>{fadeNear: n, fadeFar: f}\<close>,
  for any two numbers, so for \<^verbatim>\<open>0.2\<close> and \<^verbatim>\<open>0.8\<close>, and then cloned. The clone is
  the object that the constructor has made from \<open>baseB\<close>, after the \<^verbatim>\<open>copy\<close> of the
  rendering library and \<open>copyFadingParameters\<close> have run on it: its \<^verbatim>\<open>fadeNear\<close> reads
  \<open>n\<close> and its \<^verbatim>\<open>fadeFar\<close> reads \<open>f\<close>, its other fields are those of the new
  object (\<^verbatim>\<open>transparent\<close> is as the library's \<^verbatim>\<open>copy\<close> has left it there), and the
  constructor has patched the registry.
\<close>

theorem clone_roundtrip:
  "(let a = fst (MapMeshBasicMaterial_new chunk baseA
                   (Some \<lparr>fadeNear = Some n, fadeFar = Some f\<rparr>) registryA);
        cloned = MapMeshBasicMaterial_clone chunk baseB super_copy a registryB
    in getFadeNear (fst cloned) = Some n \<and>
       getFadeFar (fst cloned) = Some f \<and>
       transparent (fst cloned) = transparent (super_copy a baseB) \<and>
       fst cloned = copyFadingParameters a (super_copy a baseB) \<and>
       snd cloned = patchGlobalShaderChunks chunk registryB) \<and>
   (let a = fst (MapMeshStandardMaterial_new chunk baseA
                   (Some \<lparr>fadeNear = Some n, fadeFar = Some f\<rparr>) registryA);
        cloned = MapMeshStandardMaterial_clone chunk baseB super_copy a registryB
    in getFadeNear (fst cloned) = Some n \<and>
       getFadeFar (fst cloned) = Some f \<and>
       transparent (fst cloned) = transparent (super_copy a baseB) \<and>
       fst cloned = copyFadingParameters a (super_copy a baseB) \<and>
       snd cloned = patchGlobalShaderChunks chunk registryB)"
  by (simp add: MapMeshBasicMaterial_clone_def MapMeshBasicMaterial_copy_def
        MapMeshBasicMaterial_new_def MapMeshStandardMaterial_clone_def
        MapMeshStandardMaterial_copy_def MapMeshStandardMaterial_new_def Let_def
        getFadeNear_def getFadeFar_def copyFadingParameters_fields applyFadingParameters_both)
     (simp add: applyFadingParameters_def)

text \<open>
  The claim's values: \<^verbatim>\<open>0.2\<close> and \<^verbatim>\<open>0.8\<close> are the doubles
  \<open>3602879701896397 / 2 ^ 54\<close> and \<open>3602879701896397 / 2 ^ 52\<close>, and the library's
  \<^verbatim>\<open>copy\<close> here copies the flag \<^verbatim>\<open>transparent\<close>.
\<close>

lemma cloned_values_example:
  "getFadeNear (fst (MapMeshBasicMaterial_clone Map.empty blank_material
      (\<lambda>source this. this\<lparr>transparent := transparent source\<rparr>)
      (fst (MapMeshBasicMaterial_new Map.empty (blank_material\<lparr>transparent := Some True\<rparr>)
         (Some \<lparr>fadeNear = Some (round_binary64 (2 / 10)),
                fadeFar = Some (round_binary64 (8 / 10))\<rparr>) Map.empty))
      Map.empty)) = Some (Fin (3602879701896397 / 2 ^ 54))"
  "getFadeFar (fst (MapMeshBasicMaterial_clone Map.empty blank_material
      (\<lambda>source this. this\<lparr>transparent := transparent source\<rparr>)
      (fst (MapMeshBasicMaterial_new Map.empty (blank_material\<lparr>transparent := Some True\<rparr>)
         (Some \<lparr>fadeNear = Some (round_binary64 (2 / 10)),
                fadeFar = Some (round_binary64 (8 / 10))\<rparr>) Map.empty))
      Map.empty)) = Some (Fin (3602879701896397 / 2 ^ 52))"
proof -
  have doubles: "round_binary64 (2 / 10) = Fin (3602879701896397 / 2 ^ 54)"
    "round_binary64 (8 / 10) = Fin (3602879701896397 / 2 ^ 52)"
    by (simp_all add: round_binary64_def round_half_even_def Let_def)
  show "getFadeNear (fst (MapMeshBasicMaterial_clone Map.empty blank_material
      (\<lambda>source this. this\<lparr>transparent := transparent source\<rparr>)
      (fst (MapMeshBasicMaterial_new Map.empty (blank_material\<lparr>transparent := Some True\<rparr>)
         (Some \<lparr>fadeNear = Some (round_binary64 (2 / 10)),
                fadeFar = Some (round_binary64 (8 / 10))\<rparr>) Map.empty))
      Map.empty)) = Some (Fin (3602879701896397 / 2 ^ 54))"
    and "getFadeFar (fst (MapMeshBasicMaterial_clone Map.empty blank_material
      (\<lambda>source this. this\<lparr>transparent := transparent source\<rparr>)
      (fst (MapMeshBasicMaterial_new Map.empty (blank_material\<lparr>transparent := Some True\<rparr>)
         (Some \<lparr>fadeNear = Some (round_binary64 (2 / 10)),
                fadeFar = Some (round_binary64 (8 / 10))\<rparr>) Map.empty))
      Map.empty)) = Some (Fin (3602879701896397 / 2 ^ 52))"
    unfolding doubles
    by (simp_all only: MapMeshBasicMaterial_clone_def MapMeshBasicMaterial_copy_def
          MapMeshBasicMaterial_new_def Let_def fst_conv getFadeNear_def getFadeFar_def
          copyFadingParameters_fields applyFadingParameters_both option.case)
qed

lemma patchGlobalShaderChunks_twice:
  "patchGlobalShaderChunks chunk (patchGlobalShaderChunks chunk registry) =
   patchGlobalShaderChunks chunk registry"
  by (auto simp add: patchGlobalShaderChunks_def map_add_def fun_eq_iff split: option.splits)

lemma snd_construct:
  "snd (construct chunk c registry) = patchGlobalShaderChunks chunk registry"
  by (cases c) (simp_all add: MapMeshBasicMaterial_new_def MapMeshStandardMaterial_new_def Let_def)

lemma registries_all_patched:
  "r \<in> set (registries chunk cs registry) \<Longrightarrow> r = patchGlobalShaderChunks chunk registry"
proof (induction cs arbitrary: registry)
  case Nil
  then show ?case by simp
next
  case (Cons c cs)
  let ?registry1 = "patchGlobalShaderChunks chunk registry"
  from Cons.prems have "r = ?registry1 \<or> r \<in> set (registries chunk cs ?registry1)"
    by (simp add: Let_def snd_construct)
  then show ?case
  proof
    assume "r = ?registry1"
    then show ?thesis .
  next
    assume "r \<in> set (registries chunk cs ?registry1)"
    then have "r = patchGlobalShaderChunks chunk ?registry1"
      by (rule Cons.IH)
    then show ?thesis
      by (simp add: patchGlobalShaderChunks_twice)
  qed
qed

text \<open>
  C9. Let the table of fading chunks have the entry \<^verbatim>\<open>fading_pars_vertex\<close>. A call of
  \<open>patchGlobalShaderChunks\<close> on a registry that has that entry, whatever it holds there
  and elsewhere, returns the registry as it is: the patch is detected and nothing is
  written. On a registry without the entry the call writes the table into the registry and
  so changes it. In a run of constructions of materials of either class, the registry after
  each construction is the registry after the first one, it has the entry, and a further
  call leaves it as it is.
\<close>

theorem patchGlobalShaderChunks_once:
  assumes "chunk ''fading_pars_vertex'' \<noteq> None"
  shows
    "(patched ''fading_pars_vertex'' \<noteq> None \<longrightarrow>
        patchGlobalShaderChunks chunk patched = patched) \<and>
     (registry ''fading_pars_vertex'' = None \<longrightarrow>
        patchGlobalShaderChunks chunk registry = registry ++ chunk \<and>
        patchGlobalShaderChunks chunk registry \<noteq> registry) \<and>
     length (registries chunk cs registry) = length cs \<and>
     (\<forall>r \<in> set (registries chunk cs registry).
        r = patchGlobalShaderChunks chunk registry \<and>
        r ''fading_pars_vertex'' \<noteq> None \<and>
        patchGlobalShaderChunks chunk r = r)"
proof (intro conjI impI ballI)
  assume "patched ''fading_pars_vertex'' \<noteq> None"
  then show "patchGlobalShaderChunks chunk patched = patched"
    by (auto simp add: patchGlobalShaderChunks_def)
next
  assume a: "registry ''fading_pars_vertex'' = None"
  then show "patchGlobalShaderChunks chunk registry = registry ++ chunk"
    by (simp add: patchGlobalShaderChunks_def)
  have "(registry ++ chunk) ''fading_pars_vertex'' \<noteq> None"
    using assms by (auto simp add: map_add_def split: option.splits)
  with a have "registry ++ chunk \<noteq> registry"
    by metis
  with a show "patchGlobalShaderChunks chunk registry \<noteq> registry"
    by (simp add: patchGlobalShaderChunks_def)
next
  show "length (registries chunk cs registry) = length cs"
    by (induction cs arbitrary: registry) (simp_all add: Let_def)
next
  fix r assume "r \<in> set (registries chunk cs registry)"
  then show r: "r = patchGlobalShaderChunks chunk registry"
    by (rule registries_all_patched)
  show "r ''fading_pars_vertex'' \<noteq> None"
    unfolding r using assms
    by (auto simp add: patchGlobalShaderChunks_def map_add_def split: option.splits)
  show "patchGlobalShaderChunks chunk r = r"
    unfolding r by (rule patchGlobalShaderChunks_twice)
qed

text \<open>
  A registry whose entry differs from the table's keeps its own, and three constructions on
  an empty registry leave the registry of the first.
\<close>

theorem patchGlobalShaderChunks_once_witness:
  "[''fading_pars_vertex'' \<mapsto> ''varying float vFadeDepth;''] ''fading_pars_vertex'' \<noteq> None \<and>
   [''fading_pars_vertex'' \<mapsto> ''// patched by hand''] ''fading_pars_vertex'' \<noteq> None \<and>
   patchGlobalShaderChunks [''fading_pars_vertex'' \<mapsto> ''varying float vFadeDepth;'']
     [''fading_pars_vertex'' \<mapsto> ''// patched by hand'']
     = [''fading_pars_vertex'' \<mapsto> ''// patched by hand''] \<and>
   patchGlobalShaderChunks [''fading_pars_vertex'' \<mapsto> ''varying float vFadeDepth;''] Map.empty
     \<noteq> Map.empty \<and>
   length (registries [''fading_pars_vertex'' \<mapsto> ''varying float vFadeDepth;'']
     [Basic blank_material None, Standard blank_material None, Basic blank_material None]
     Map.empty) = 3 \<and>
   registries [''fading_pars_vertex'' \<mapsto> ''varying float vFadeDepth;'']
     [Basic blank_material None, Standard blank_material None, Basic blank_material None]
     Map.empty ! 2
     = patchGlobalShaderChunks [''fading_pars_vertex'' \<mapsto> ''varying float vFadeDepth;'']
         Map.empty \<and>
   patchGlobalShaderChunks [''fading_pars_vertex'' \<mapsto> ''varying float vFadeDepth;'']
     (registries [''fading_pars_vertex'' \<mapsto> ''varying float vFadeDepth;'']
        [Basic blank_material None, Standard blank_material None, Basic blank_material None]
        Map.empty ! 2)
     = registries [''fading_pars_vertex'' \<mapsto> ''varying float vFadeDepth;'']
         [Basic blank_material None, Standard blank_material None, Basic blank_material None]
         Map.empty ! 2"
proof -
  let ?chunk = "[''fading_pars_vertex'' \<mapsto> ''varying float vFadeDepth;'']"
  let ?byhand = "[''fading_pars_vertex'' \<mapsto> ''// patched by hand'']"
  let ?cs = "[Basic blank_material None, Standard blank_material None, Basic blank_material None]"
  have key: "?chunk ''fading_pars_vertex'' \<noteq> None"
    by simp
  have byhand: "?byhand ''fading_pars_vertex'' \<noteq> None"
    by simp
  have unpatched: "(Map.empty :: ShaderChunk) ''fading_pars_vertex'' = None"
    by simp
  note once = patchGlobalShaderChunks_once [of ?chunk ?byhand Map.empty ?cs, OF key]
  from once have len: "length (registries ?chunk ?cs Map.empty) = 3"
    by simp
  then have "registries ?chunk ?cs Map.empty ! 2 \<in> set (registries ?chunk ?cs Map.empty)"
    by (intro nth_mem) simp
  with once unpatched key byhand len show ?thesis
    by blast
qed

end
